theory Spec2Isabelle
  imports Complex_Main "HOL-Library.Product_Lexorder"
begin

section \<open>The store\<close>

text \<open>
  The application keeps three tables (\<open>users\<close>, \<open>food_items\<close>, \<open>notifications\<close>) in a
  relational store. Each table is the list of its rows in storage order, and a query
  without \<open>order_by\<close> returns the matching rows in that order. The primary keys are
  Python integers. The columns that are filled from \<open>datetime.utcnow\<close> and never read by
  the application logic (\<open>created_at\<close>, \<open>purchase_date\<close>, \<open>sent_at\<close>) are left out, and
  so is what the handlers print to the console.

  A \<open>datetime\<close> is a calendar day (a day number) and the time of day in microseconds.
  One request reads the clock once: every \<open>datetime.now()\<close> of a handler is its argument
  \<open>now\<close>. Prices are Python floats; they are modelled by the rationals they stand for, and
  sums and quotients of them are exact.
\<close>

record datetime =
  day :: int
  tod :: nat

record user =
  u_id :: int
  username :: string
  email :: string
  password :: string
  phone :: "string option"
  is_admin :: bool
  is_approved :: bool

record food_item =
  fi_id :: int
  user_id :: int
  name :: string
  barcode :: "string option"
  category :: "string option"
  expiry_date :: datetime
  quantity :: int
  price :: "rat option"
  image_path :: "string option"
  is_expired :: bool
  is_used :: bool

record notification =
  n_id :: int
  n_user_id :: int
  food_item_id :: int
  notification_type :: string
  message :: string

record db =
  users :: "user list"
  food_items :: "food_item list"
  notifications :: "notification list"

text \<open>
  The store assigns the primary key of a new row: one more than the largest key in use,
  and 1 in an empty table (SQLite's rule for an integer primary key).
\<close>

definition next_id :: "int list \<Rightarrow> int" where
  "next_id ids = fold max ids 0 + 1"

text \<open>\<open>db.get(User, user_id)\<close>: the row with that primary key, if any.\<close>

definition get_user :: "db \<Rightarrow> int \<Rightarrow> user option" where
  "get_user d uid = find (\<lambda>u. u_id u = uid) (users d)"

text \<open>\<open>UPDATE food_items SET is_expired = 1 WHERE id = k\<close>, the write behind
  \<open>item.is_expired = True; db.commit()\<close>.\<close>

definition set_expired :: "db \<Rightarrow> int \<Rightarrow> db" where
  "set_expired d k =
     d\<lparr>food_items := map (\<lambda>i. if fi_id i = k then i\<lparr>is_expired := True\<rparr> else i) (food_items d)\<rparr>"

section \<open>Dates\<close>

definition us_per_day :: int where
  "us_per_day = 86400000000"

text \<open>\<open>(a - b).days\<close> of two datetimes: the difference in whole days, rounded down.\<close>

definition timedelta_days :: "datetime \<Rightarrow> datetime \<Rightarrow> int" where
  "timedelta_days a b =
     ((day a - day b) * us_per_day + (int (tod a) - int (tod b))) div us_per_day"

text \<open>\<open>d.replace(hour=0, minute=0, second=0, microsecond=0)\<close>\<close>

definition midnight :: "datetime \<Rightarrow> datetime" where
  "midnight d = d\<lparr>tod := 0\<rparr>"

text \<open>\<open>d + timedelta(days=n)\<close>\<close>

definition plus_days :: "datetime \<Rightarrow> int \<Rightarrow> datetime" where
  "plus_days d n = d\<lparr>day := day d + n\<rparr>"

text \<open>\<open>a <= b\<close> on datetimes.\<close>

definition dt_le :: "datetime \<Rightarrow> datetime \<Rightarrow> bool" where
  "dt_le a b \<longleftrightarrow> day a < day b \<or> (day a = day b \<and> tod a \<le> tod b)"

text \<open>The first argument is the reading of \<open>datetime.now()\<close>.\<close>

definition calculate_days_until_expiry :: "datetime \<Rightarrow> datetime \<Rightarrow> int" where
  "calculate_days_until_expiry now expiry =
     (let today = midnight now;
          expiry' = midnight expiry
      in timedelta_days expiry' today)"

section \<open>The notification engine\<close>

definition send_notification :: "db \<Rightarrow> food_item \<Rightarrow> string \<Rightarrow> string \<Rightarrow> db" where
  "send_notification d item notif_type msg =
     d\<lparr>notifications := notifications d @
        [\<lparr>n_id = next_id (map n_id (notifications d)),
          n_user_id = user_id item,
          food_item_id = fi_id item,
          notification_type = notif_type,
          message = msg\<rparr>]\<rparr>"

text \<open>\<open>sep.join(xs)\<close>\<close>

fun join :: "string \<Rightarrow> string list \<Rightarrow> string" where
  "join sep [] = []"
| "join sep [x] = x"
| "join sep (x # y # ys) = x @ sep @ join sep (y # ys)"

definition get_recipe_suggestions :: "datetime \<Rightarrow> db \<Rightarrow> int \<Rightarrow> string" where
  "get_recipe_suggestions now d uid =
     (let thirty_days = plus_days now 30;
          expiring_items = filter (\<lambda>i. user_id i = uid \<and> dt_le (expiry_date i) thirty_days
                                        \<and> \<not> is_expired i) (food_items d);
          ingredients = map name expiring_items
      in if ingredients = [] then ''No recipes available''
         else ''You have: '' @ join '', '' (take 3 ingredients)
                @ ''. Try making a stir-fry, soup, or salad!'')"

text \<open>
  The body of the loop of \<open>check_and_send_notifications\<close> for one item of the query's
  result. The item's own columns are read from the loaded row; the notification history
  and the recipe suggestions are read from the store as it is at that moment.
\<close>

definition check_item :: "datetime \<Rightarrow> db \<Rightarrow> food_item \<Rightarrow> db" where
  "check_item now d item =
     (let days_left = calculate_days_until_expiry now (expiry_date item)
      in if days_left < 0
         then send_notification (set_expired d (fi_id item)) item ''expired''
                (name item @ '' has expired!'')
         else
           let existing_notifications =
                 filter (\<lambda>n. food_item_id n = fi_id item) (notifications d);
               notification_types_sent = map notification_type existing_notifications;
               d1 = (if days_left \<le> 30 \<and> ''month'' \<notin> set notification_types_sent
                     then send_notification d item ''month''
                            (name item @ '' expires in a month! Recipe ideas: ''
                               @ get_recipe_suggestions now d (user_id item))
                     else d);
               d2 = (if days_left \<le> 7 \<and> ''week'' \<notin> set notification_types_sent
                     then send_notification d1 item ''week''
                            (name item @ '' expires in a week! Use it soon.'')
                     else d1);
               d3 = (if days_left \<le> 1 \<and> ''day'' \<notin> set notification_types_sent
                     then send_notification d2 item ''day''
                            (name item @ '' expires tomorrow! Use it today.'')
                     else d2)
           in d3)"

definition check_and_send_notifications :: "datetime \<Rightarrow> db \<Rightarrow> db" where
  "check_and_send_notifications now d =
     (let items = filter (\<lambda>i. \<not> is_expired i) (food_items d)
      in foldl (check_item now) d items)"

section \<open>The statistics calculator\<close>

record stats =
  total_items :: nat
  expired_items :: nat
  used_items :: nat
  active_items :: nat
  money_saved :: rat
  money_wasted :: rat
  waste_percentage :: rat

text \<open>
  \<open>i.price or 5.0\<close>: Python's \<open>or\<close> yields its right operand when the left one is falsy,
  and both \<open>None\<close> and \<open>0.0\<close> are falsy.
\<close>

definition price_or_5 :: "rat option \<Rightarrow> rat" where
  "price_or_5 p = (case p of None \<Rightarrow> 5 | Some x \<Rightarrow> if x = 0 then 5 else x)"

text \<open>Rounding to the nearest integer, a tie to the even neighbour.\<close>

definition round_half_even :: "rat \<Rightarrow> int" where
  "round_half_even x =
     (let f = \<lfloor>x\<rfloor>; r = x - of_int f
      in if r < 1 / 2 then f
         else if 1 / 2 < r then f + 1
         else if even f then f else f + 1)"

text \<open>\<open>round(x, ndigits)\<close>\<close>

definition py_round :: "rat \<Rightarrow> nat \<Rightarrow> rat" where
  "py_round x ndigits = of_int (round_half_even (x * 10 ^ ndigits)) / 10 ^ ndigits"

definition calculate_user_stats :: "db \<Rightarrow> int \<Rightarrow> stats" where
  "calculate_user_stats d uid =
     (let all_items = filter (\<lambda>i. user_id i = uid) (food_items d);
          total = length all_items;
          expired = length (filter is_expired all_items);
          used = length (filter is_used all_items);
          active = length (filter (\<lambda>i. \<not> is_expired i \<and> \<not> is_used i) all_items);
          saved = sum_list (map (\<lambda>i. price_or_5 (price i)) (filter is_used all_items));
          wasted = sum_list (map (\<lambda>i. price_or_5 (price i)) (filter is_expired all_items));
          waste = (if total > 0 then of_nat expired / of_nat total * 100 else 0)
      in \<lparr>total_items = total,
          expired_items = expired,
          used_items = used,
          active_items = active,
          money_saved = py_round saved 2,
          money_wasted = py_round wasted 2,
          waste_percentage = py_round waste 1\<rparr>)"

section \<open>Sessions and request handlers\<close>

text \<open>
  A handler takes the \<open>user_id\<close> entry of the session (\<open>None\<close> when there is none) and the
  store, and returns its response with the store it leaves. Of a template response only
  the template's name and the error message are kept.
\<close>

datatype response =
    RedirectResponse string nat
  | TemplateResponse string "string option"
  | HTTPException nat string
  | JSONResponse string  \<comment> \<open>the value of the \<open>status\<close> field\<close>

definition require_login :: "int option \<Rightarrow> response + int" where
  "require_login sess =
     (case sess of
        None \<Rightarrow> Inl (HTTPException 401 ''Not authenticated'')
      | Some uid \<Rightarrow> if uid = 0 then Inl (HTTPException 401 ''Not authenticated'') else Inr uid)"

definition require_admin :: "int option \<Rightarrow> db \<Rightarrow> response + user" where
  "require_admin sess d =
     (case require_login sess of
        Inl e \<Rightarrow> Inl e
      | Inr uid \<Rightarrow>
          (case get_user d uid of
             None \<Rightarrow> Inl (HTTPException 403 ''Admin access required'')
           | Some u \<Rightarrow> if \<not> is_admin u then Inl (HTTPException 403 ''Admin access required'')
                       else Inr u))"

definition get_current_user :: "int option \<Rightarrow> db \<Rightarrow> response + user" where
  "get_current_user sess d =
     (case require_login sess of
        Inl e \<Rightarrow> Inl e
      | Inr uid \<Rightarrow>
          (case get_user d uid of
             None \<Rightarrow> Inl (HTTPException 404 ''User not found'')
           | Some u \<Rightarrow> Inr u))"

text \<open>The password hash (SHA-256, hexadecimal) is the parameter \<open>H\<close>.\<close>

definition signup ::
  "(string \<Rightarrow> string) \<Rightarrow> string \<Rightarrow> string \<Rightarrow> string \<Rightarrow> string \<Rightarrow> db \<Rightarrow> response \<times> db" where
  "signup H uname mail pw ph d =
     (case find (\<lambda>u. username u = uname \<or> email u = mail) (users d) of
        Some existing_user \<Rightarrow>
          (TemplateResponse ''signup.html'' (Some ''Username or email already exists''), d)
      | None \<Rightarrow>
          (let is_first_user = (length (users d) = 0);
               u = \<lparr>u_id = next_id (map u_id (users d)),
                    username = uname,
                    email = mail,
                    password = H pw,
                    phone = (if ph = [] then None else Some ph),
                    is_admin = is_first_user,
                    is_approved = is_first_user\<rparr>
           in (RedirectResponse ''/login'' 302, d\<lparr>users := users d @ [u]\<rparr>)))"

text \<open>
  The second loop of \<open>dashboard\<close>, for one item: the flag is written when the item is past
  its expiry date and not flagged yet. The lists it sorts the items into are part of the
  rendered page only.
\<close>

definition dashboard_item :: "datetime \<Rightarrow> db \<Rightarrow> food_item \<Rightarrow> db" where
  "dashboard_item now d item =
     (let days = calculate_days_until_expiry now (expiry_date item)
      in if days < 0 \<and> \<not> is_expired item then set_expired d (fi_id item) else d)"

definition dashboard :: "datetime \<Rightarrow> int option \<Rightarrow> db \<Rightarrow> response \<times> db" where
  "dashboard now sess d =
     (case get_current_user sess d of
        Inl e \<Rightarrow> (e, d)
      | Inr u \<Rightarrow>
          (let d1 = check_and_send_notifications now d;
               items = sort_key (\<lambda>i. (day (expiry_date i), tod (expiry_date i)))
                         (filter (\<lambda>i. user_id i = u_id u \<and> \<not> is_used i) (food_items d1));
               d2 = foldl (dashboard_item now) d1 items
           in (TemplateResponse ''dashboard.html'' None, d2)))"

text \<open>
  \<open>add_item\<close>: the expiry date arrives as the result of \<open>strptime\<close> (\<open>None\<close> when the form's
  string does not parse, which raises before anything is written), the image as the path
  under which the upload was saved.
\<close>

definition add_item ::
  "int option \<Rightarrow> string \<Rightarrow> string \<Rightarrow> string \<Rightarrow> datetime option \<Rightarrow> int \<Rightarrow> rat option
     \<Rightarrow> string option \<Rightarrow> db \<Rightarrow> response \<times> db" where
  "add_item sess nm bc cat expiry qty pr img d =
     (case get_current_user sess d of
        Inl e \<Rightarrow> (e, d)
      | Inr u \<Rightarrow>
          (case expiry of
             None \<Rightarrow> (HTTPException 500 ''Internal Server Error'', d)
           | Some e \<Rightarrow>
               (let item = \<lparr>fi_id = next_id (map fi_id (food_items d)),
                            user_id = u_id u,
                            name = nm,
                            barcode = (if bc = [] then None else Some bc),
                            category = (if cat = [] then None else Some cat),
                            expiry_date = e,
                            quantity = qty,
                            price = pr,
                            image_path = img,
                            is_expired = False,
                            is_used = False\<rparr>
                in (RedirectResponse ''/dashboard'' 302, d\<lparr>food_items := food_items d @ [item]\<rparr>))))"

definition delete_item :: "int option \<Rightarrow> int \<Rightarrow> db \<Rightarrow> response \<times> db" where
  "delete_item sess item_id d =
     (case get_current_user sess d of
        Inl e \<Rightarrow> (e, d)
      | Inr u \<Rightarrow>
          (RedirectResponse ''/dashboard'' 302,
           case find (\<lambda>i. fi_id i = item_id \<and> user_id i = u_id u) (food_items d) of
             None \<Rightarrow> d
           | Some item \<Rightarrow>
               d\<lparr>food_items := filter (\<lambda>i. fi_id i \<noteq> fi_id item) (food_items d)\<rparr>))"

definition mark_item_used :: "int option \<Rightarrow> int \<Rightarrow> db \<Rightarrow> response \<times> db" where
  "mark_item_used sess item_id d =
     (case get_current_user sess d of
        Inl e \<Rightarrow> (e, d)
      | Inr u \<Rightarrow>
          (RedirectResponse ''/dashboard'' 302,
           case find (\<lambda>i. fi_id i = item_id \<and> user_id i = u_id u) (food_items d) of
             None \<Rightarrow> d
           | Some item \<Rightarrow>
               d\<lparr>food_items := map (\<lambda>i. if fi_id i = fi_id item then i\<lparr>is_used := True\<rparr> else i)
                                   (food_items d)\<rparr>))"

definition approve_user :: "int option \<Rightarrow> int \<Rightarrow> db \<Rightarrow> response \<times> db" where
  "approve_user sess uid d =
     (case require_admin sess d of
        Inl e \<Rightarrow> (e, d)
      | Inr admin \<Rightarrow>
          (RedirectResponse ''/admin/dashboard'' 302,
           case get_user d uid of
             None \<Rightarrow> d
           | Some u \<Rightarrow>
               d\<lparr>users := map (\<lambda>v. if u_id v = u_id u then v\<lparr>is_approved := True\<rparr> else v)
                              (users d)\<rparr>))"

text \<open>
  \<open>db.delete(user)\<close> deletes the user's row and, through the relationship
  \<open>User.food_items\<close> with \<open>cascade="all, delete-orphan"\<close>, the food items whose \<open>user_id\<close>
  is the user's. Notifications have no such relationship and stay.
\<close>

definition delete_user :: "int option \<Rightarrow> int \<Rightarrow> db \<Rightarrow> response \<times> db" where
  "delete_user sess uid d =
     (case require_admin sess d of
        Inl e \<Rightarrow> (e, d)
      | Inr admin \<Rightarrow>
          if uid = u_id admin then (RedirectResponse ''/admin/dashboard'' 302, d)
          else
            (RedirectResponse ''/admin/dashboard'' 302,
             case get_user d uid of
               None \<Rightarrow> d
             | Some u \<Rightarrow>
                 d\<lparr>users := filter (\<lambda>v. u_id v \<noteq> u_id u) (users d),
                   food_items := filter (\<lambda>i. user_id i \<noteq> u_id u) (food_items d)\<rparr>))"

definition check_notifications_endpoint :: "datetime \<Rightarrow> db \<Rightarrow> response \<times> db" where
  "check_notifications_endpoint now d =
     (JSONResponse ''Notifications checked'', check_and_send_notifications now d)"

text \<open>
  The requests that write to the store. The other routes (the login, statistics,
  notifications, recipes, scanner and admin pages) only read it.
\<close>

datatype request =
    Signup string string string string
  | Dashboard
  | CheckNotifications
  | AddItem string string string "datetime option" int "rat option" "string option"
  | DeleteItem int
  | MarkItemUsed int
  | ApproveUser int
  | DeleteUser int

text \<open>One request, served at clock reading \<open>now\<close> for the session \<open>sess\<close>.\<close>

fun serve :: "(string \<Rightarrow> string) \<Rightarrow> datetime \<Rightarrow> int option \<Rightarrow> request \<Rightarrow> db \<Rightarrow> response \<times> db" where
  "serve H now sess (Signup uname mail pw ph) d = signup H uname mail pw ph d"
| "serve H now sess Dashboard d = dashboard now sess d"
| "serve H now sess CheckNotifications d = check_notifications_endpoint now d"
| "serve H now sess (AddItem nm bc cat expiry qty pr img) d =
     add_item sess nm bc cat expiry qty pr img d"
| "serve H now sess (DeleteItem item_id) d = delete_item sess item_id d"
| "serve H now sess (MarkItemUsed item_id) d = mark_item_used sess item_id d"
| "serve H now sess (ApproveUser uid) d = approve_user sess uid d"
| "serve H now sess (DeleteUser uid) d = delete_user sess uid d"

text \<open>Requests served one after the other.\<close>

fun serve_all ::
  "(string \<Rightarrow> string) \<Rightarrow> (datetime \<times> int option \<times> request) list \<Rightarrow> db \<Rightarrow> db" where
  "serve_all H [] d = d"
| "serve_all H ((now, sess, r) # rs) d = serve_all H rs (snd (serve H now sess r d))"

section \<open>Notions the properties are stated with\<close>

text \<open>The pair a notification is to be unique for, and the pairs present in the store.\<close>

definition notif_key :: "notification \<Rightarrow> int \<times> string" where
  "notif_key n = (food_item_id n, notification_type n)"

definition keys :: "db \<Rightarrow> (int \<times> string) list" where
  "keys d = map notif_key (notifications d)"

text \<open>
  The thresholds of the three staged reminders, and the types one pass of the loop sends
  for an item: \<open>expired\<close> alone when the item is past its date, and otherwise each
  reminder whose threshold is reached and which the item's history does not hold yet.
\<close>

definition threshold :: "string \<Rightarrow> int" where
  "threshold T = (if T = ''month'' then 30 else if T = ''week'' then 7 else 1)"

definition due_types :: "datetime \<Rightarrow> db \<Rightarrow> food_item \<Rightarrow> string list" where
  "due_types now d item =
     (let days_left = calculate_days_until_expiry now (expiry_date item)
      in if days_left < 0 then [''expired'']
         else filter (\<lambda>T. days_left \<le> threshold T \<and> (fi_id item, T) \<notin> set (keys d))
                [''month'', ''week'', ''day''])"

text \<open>
  The invariant of the notifications table, and the two facts it rests on: the primary
  key of the food items, and that an item not flagged expired has no \<open>expired\<close>
  notification yet.
\<close>

definition one_notification_per_pair :: "db \<Rightarrow> bool" where
  "one_notification_per_pair d \<longleftrightarrow> distinct (keys d)"

definition expired_flag_consistent :: "db \<Rightarrow> bool" where
  "expired_flag_consistent d \<longleftrightarrow>
     (\<forall>i\<in>set (food_items d). \<not> is_expired i \<longrightarrow> (fi_id i, ''expired'') \<notin> set (keys d))"

definition store_ok :: "db \<Rightarrow> bool" where
  "store_ok d \<longleftrightarrow>
     distinct (map fi_id (food_items d)) \<and> one_notification_per_pair d \<and> expired_flag_consistent d"

text \<open>The notifications written between a store and a later state of it.\<close>

definition emitted :: "db \<Rightarrow> db \<Rightarrow> notification list" where
  "emitted d d' = drop (length (notifications d)) (notifications d')"

text \<open>The notifications of one type that the store holds for an item.\<close>

definition sent :: "db \<Rightarrow> int \<Rightarrow> string \<Rightarrow> notification list" where
  "sent d k T =
     filter (\<lambda>n. food_item_id n = k \<and> notification_type n = T) (notifications d)"

text \<open>A store in which a sweep at the given clock reading finds nothing to do.\<close>

definition settled :: "datetime \<Rightarrow> db \<Rightarrow> bool" where
  "settled now d \<longleftrightarrow> (\<forall>i\<in>set (food_items d). \<not> is_expired i \<longrightarrow> due_types now d i = [])"


text \<open>
  The statistics calculator in the words of its description: the price of an item, with
  the flat fallback 5.0 when the price is absent, and the sum of it over a list of items,
  rounded to two decimals.
\<close>

definition price_or_fallback :: "rat option \<Rightarrow> rat" where
  "price_or_fallback p = (case p of None \<Rightarrow> 5 | Some x \<Rightarrow> x)"

definition described_money :: "food_item list \<Rightarrow> rat" where
  "described_money items = py_round (sum_list (map (\<lambda>i. price_or_fallback (price i)) items)) 2"

definition described_stats :: "db \<Rightarrow> int \<Rightarrow> stats" where
  "described_stats d uid =
     (let items = filter (\<lambda>i. user_id i = uid) (food_items d);
          expired = filter is_expired items;
          used = filter is_used items
      in \<lparr>total_items = length items,
          expired_items = length expired,
          used_items = length used,
          active_items = length (filter (\<lambda>i. \<not> is_expired i \<and> \<not> is_used i) items),
          money_saved = described_money used,
          money_wasted = described_money expired,
          waste_percentage =
            (if length items = 0 then 0
             else py_round (of_nat (length expired) / of_nat (length items) * 100) 1)\<rparr>)"

text \<open>
  The items the recipe helper is described to select: the user's items that expire no
  later than 30 days from the clock reading and are not flagged expired.
\<close>

definition expiring_soon :: "datetime \<Rightarrow> db \<Rightarrow> int \<Rightarrow> food_item list" where
  "expiring_soon now d uid =
     filter (\<lambda>i. user_id i = uid \<and> \<not> is_expired i
                \<and> (day (expiry_date i) < day now + 30
                     \<or> (day (expiry_date i) = day now + 30 \<and> tod (expiry_date i) \<le> tod now)))
       (food_items d)"

section \<open>Example stores\<close>

text \<open>
  Small stores on which the properties below are exercised. \<open>stale\<close> holds an item that
  is past its date and not flagged, with an \<open>expired\<close> notification already recorded for
  its identifier.
\<close>

definition item_at :: "int \<Rightarrow> int \<Rightarrow> string \<Rightarrow> int \<Rightarrow> food_item" where
  "item_at k uid nm dy =
     \<lparr>fi_id = k, user_id = uid, name = nm, barcode = None, category = None,
      expiry_date = \<lparr>day = dy, tod = 0\<rparr>, quantity = 1, price = None, image_path = None,
      is_expired = False, is_used = False\<rparr>"

definition alice :: user where
  "alice = \<lparr>u_id = 1, username = ''alice'', email = ''alice@example.org'', password = ''x'',
            phone = None, is_admin = True, is_approved = True\<rparr>"

definition noon :: datetime where
  "noon = \<lparr>day = 100, tod = 43200000000\<rparr>"

definition pantry :: db where
  "pantry = \<lparr>users = [alice],
             food_items = [item_at 1 1 ''milk'' 99, item_at 2 1 ''eggs'' 107],
             notifications = []\<rparr>"

definition stale :: db where
  "stale = \<lparr>users = [alice],
            food_items = [item_at 1 1 ''milk'' 99],
            notifications = [\<lparr>n_id = 1, n_user_id = 1, food_item_id = 1,
                               notification_type = ''expired'', message = ''milk has expired!''\<rparr>]\<rparr>"



definition carol :: user where
  "carol = \<lparr>u_id = 2, username = ''carol'', email = ''carol@example.org'', password = ''y'',
            phone = Some ''555-0100'', is_admin = False, is_approved = True\<rparr>"

definition household :: db where
  "household = \<lparr>users = [alice, carol],
                food_items = [item_at 1 1 ''milk'' 99, item_at 2 2 ''bread'' 105,
                              item_at 3 1 ''eggs'' 107],
                notifications = []\<rparr>"

text \<open>
  The store after Alice has added a bottle of water with the price 0.0 to an empty pantry
  and marked it used.
\<close>

definition giveaway :: db where
  "giveaway =
     \<lparr>users = [alice],
      food_items = [(item_at 1 1 ''water'' 130)\<lparr>price := Some 0, is_used := True\<rparr>],
      notifications = []\<rparr>"

text \<open>Three items of user 1: 5.0 and used, 3.0 and expired, no price and used.\<close>

definition three_items :: db where
  "three_items =
     \<lparr>users = [alice],
      food_items =
        [(item_at 1 1 ''rice'' 120)\<lparr>price := Some 5, is_used := True\<rparr>,
         (item_at 2 1 ''milk'' 90)\<lparr>price := Some 3, is_expired := True\<rparr>,
         (item_at 3 1 ''salt'' 400)\<lparr>is_used := True\<rparr>],
      notifications = []\<rparr>"

section \<open>The notification sweep, step by step\<close>

lemma days_until_expiry: "calculate_days_until_expiry now e = day e - day now"
  by (simp add: calculate_days_until_expiry_def timedelta_days_def midnight_def us_per_day_def)

lemma send_notification_simps [simp]:
  "users (send_notification d item T m) = users d"
  "food_items (send_notification d item T m) = food_items d"
  "keys (send_notification d item T m) = keys d @ [(fi_id item, T)]"
  by (simp_all add: send_notification_def keys_def notif_key_def)

lemma set_expired_simps [simp]:
  "users (set_expired d k) = users d"
  "notifications (set_expired d k) = notifications d"
  "keys (set_expired d k) = keys d"
  "food_items (set_expired d k) = map (\<lambda>i. if fi_id i = k then i\<lparr>is_expired := True\<rparr> else i) (food_items d)"
  by (simp_all add: set_expired_def keys_def)

lemma types_sent_iff:
  "T \<in> set (map notification_type (filter (\<lambda>n. food_item_id n = k) (notifications d)))
     \<longleftrightarrow> (k, T) \<in> set (keys d)"
  by (auto simp: keys_def notif_key_def image_iff)

lemma check_item_users [simp]: "users (check_item now d item) = users d"
  by (simp add: check_item_def Let_def)

lemma check_item_food_items:
  "food_items (check_item now d item) =
     (if calculate_days_until_expiry now (expiry_date item) < 0
      then map (\<lambda>i. if fi_id i = fi_id item then i\<lparr>is_expired := True\<rparr> else i) (food_items d)
      else food_items d)"
  by (simp add: check_item_def Let_def)

lemma check_item_keys:
  "keys (check_item now d item) = keys d @ map (Pair (fi_id item)) (due_types now d item)"
  unfolding check_item_def due_types_def Let_def types_sent_iff
  by (simp add: threshold_def)


lemma due_types_distinct: "distinct (due_types now d item)"
  by (simp add: due_types_def Let_def)

lemma due_types_fresh:
  assumes "T \<in> set (due_types now d item)" and "T \<noteq> ''expired''"
  shows "(fi_id item, T) \<notin> set (keys d)"
  using assms by (auto simp: due_types_def Let_def split: if_splits)

lemma due_types_expired_iff:
  "''expired'' \<in> set (due_types now d item) \<longleftrightarrow>
     calculate_days_until_expiry now (expiry_date item) < 0"
  by (auto simp: due_types_def Let_def)

lemma check_item_fi_ids [simp]:
  "map fi_id (food_items (check_item now d item)) = map fi_id (food_items d)"
  by (simp add: check_item_food_items o_def)

lemma check_item_one_per_pair:
  assumes "one_notification_per_pair d" and "expired_flag_consistent d"
    and "item \<in> set (food_items d)" and "\<not> is_expired item"
  shows "one_notification_per_pair (check_item now d item)"
proof -
  have fresh: "(fi_id item, T) \<notin> set (keys d)" if "T \<in> set (due_types now d item)" for T
  proof (cases "T = ''expired''")
    case True
    with assms show ?thesis by (auto simp: expired_flag_consistent_def)
  next
    case False
    with that show ?thesis by (rule due_types_fresh)
  qed
  have "distinct (map (Pair (fi_id item)) (due_types now d item))"
    by (simp add: distinct_map due_types_distinct inj_on_def)
  with assms(1) fresh show ?thesis
    by (auto simp: one_notification_per_pair_def check_item_keys)
qed

lemma check_item_consistent:
  assumes "expired_flag_consistent d"
  shows "expired_flag_consistent (check_item now d item)"
  unfolding expired_flag_consistent_def
proof (intro ballI impI)
  fix i
  assume i: "i \<in> set (food_items (check_item now d item))" and unflagged: "\<not> is_expired i"
  let ?past = "calculate_days_until_expiry now (expiry_date item) < 0"
  from i unflagged have old: "i \<in> set (food_items d)" and other: "?past \<longrightarrow> fi_id i \<noteq> fi_id item"
    by (auto simp: check_item_food_items split: if_splits)
  from old unflagged assms have "(fi_id i, ''expired'') \<notin> set (keys d)"
    by (simp add: expired_flag_consistent_def)
  moreover from other have "(fi_id i, ''expired'') \<notin> Pair (fi_id item) ` set (due_types now d item)"
    by (auto simp: due_types_expired_iff)
  ultimately show "(fi_id i, ''expired'') \<notin> set (keys (check_item now d item))"
    by (simp add: check_item_keys)
qed

lemma check_item_keeps_others:
  assumes "j \<in> set (food_items d)" and "fi_id j \<noteq> fi_id item"
  shows "j \<in> set (food_items (check_item now d item))"
  using assms by (force simp: check_item_food_items image_iff)

lemma sweep_loop_ok:
  assumes "one_notification_per_pair d" and "expired_flag_consistent d"
    and "set rest \<subseteq> set (food_items d)" and "\<forall>i\<in>set rest. \<not> is_expired i"
    and "distinct (map fi_id rest)"
  shows "one_notification_per_pair (foldl (check_item now) d rest)
       \<and> expired_flag_consistent (foldl (check_item now) d rest)"
  using assms
proof (induction rest arbitrary: d)
  case Nil
  then show ?case by simp
next
  case (Cons a rest)
  let ?d = "check_item now d a"
  have 1: "one_notification_per_pair ?d"
    using Cons.prems by (intro check_item_one_per_pair) auto
  have 2: "expired_flag_consistent ?d"
    using Cons.prems by (intro check_item_consistent) auto
  have 3: "set rest \<subseteq> set (food_items ?d)"
  proof
    fix j assume j: "j \<in> set rest"
    from Cons.prems(5) have "fi_id a \<notin> fi_id ` set rest" by simp
    with j have "fi_id j \<noteq> fi_id a" by (metis imageI)
    moreover from j Cons.prems(3) have "j \<in> set (food_items d)" by auto
    ultimately show "j \<in> set (food_items ?d)" by (rule check_item_keeps_others[rotated])
  qed
  from Cons.IH[OF 1 2 3] Cons.prems show ?case by simp
qed

lemma sweep_fi_ids [simp]:
  "map fi_id (food_items (foldl (check_item now) d rest)) = map fi_id (food_items d)"
  by (induction rest arbitrary: d) simp_all

lemma sweep_store_ok:
  assumes "store_ok d"
  shows "store_ok (check_and_send_notifications now d)"
proof -
  let ?S = "filter (\<lambda>i. \<not> is_expired i) (food_items d)"
  from assms have a: "one_notification_per_pair d" and b: "expired_flag_consistent d"
    and c: "distinct (map fi_id (food_items d))"
    by (simp_all add: store_ok_def)
  from c have e: "distinct (map fi_id ?S)"
    by (rule distinct_map_filter)
  have "one_notification_per_pair (foldl (check_item now) d ?S)
       \<and> expired_flag_consistent (foldl (check_item now) d ?S)"
    by (rule sweep_loop_ok[OF a b _ _ e]) auto
  with c show ?thesis
    unfolding store_ok_def check_and_send_notifications_def Let_def by simp
qed

section \<open>The dashboard view and sequences of views\<close>

lemma set_expired_fi_ids [simp]:
  "map fi_id (food_items (set_expired d k)) = map fi_id (food_items d)"
  by (induction "food_items d") (simp_all add: o_def)

lemma set_expired_store_ok:
  assumes "store_ok d"
  shows "store_ok (set_expired d k)"
proof -
  have "expired_flag_consistent (set_expired d k)"
    using assms by (auto simp: store_ok_def expired_flag_consistent_def split: if_splits)
  moreover have "distinct (map fi_id (food_items (set_expired d k)))"
    using assms unfolding set_expired_fi_ids by (simp add: store_ok_def)
  moreover have "one_notification_per_pair (set_expired d k)"
    using assms by (simp add: store_ok_def one_notification_per_pair_def)
  ultimately show ?thesis
    unfolding store_ok_def by blast
qed

lemma dashboard_item_store_ok: "store_ok d \<Longrightarrow> store_ok (dashboard_item now d item)"
  by (simp add: dashboard_item_def Let_def set_expired_store_ok)

lemma dashboard_loop_store_ok: "store_ok d \<Longrightarrow> store_ok (foldl (dashboard_item now) d items)"
  by (induction items arbitrary: d) (simp_all add: dashboard_item_store_ok)

lemma dashboard_store_ok:
  assumes "store_ok d"
  shows "store_ok (snd (dashboard now sess d))"
proof (cases "get_current_user sess d")
  case (Inl e)
  with assms show ?thesis by (simp add: dashboard_def)
next
  case (Inr u)
  then show ?thesis
    by (simp add: dashboard_def Let_def dashboard_loop_store_ok sweep_store_ok[OF assms])
qed

lemma views_store_ok:
  assumes "store_ok d" and "\<forall>q\<in>set rs. snd (snd q) = Dashboard \<or> snd (snd q) = CheckNotifications"
  shows "store_ok (serve_all H rs d)"
  using assms
proof (induction rs arbitrary: d)
  case Nil
  then show ?case by simp
next
  case (Cons q rs)
  obtain now sess r where q: "q = (now, sess, r)" by (cases q)
  with Cons.prems have "r = Dashboard \<or> r = CheckNotifications" by simp
  with Cons.prems(1) have "store_ok (snd (serve H now sess r d))"
    by (auto simp: dashboard_store_ok sweep_store_ok check_notifications_endpoint_def)
  with Cons show ?case by (simp add: q)
qed

section \<open>What a sweep appends and what it flags\<close>

lemma send_notification_notifications:
  "notifications (send_notification d item T m) = notifications d @
     [\<lparr>n_id = next_id (map n_id (notifications d)), n_user_id = user_id item,
       food_item_id = fi_id item, notification_type = T, message = m\<rparr>]"
  by (simp add: send_notification_def)

lemma check_item_appends:
  "\<exists>new. notifications (check_item now d item) = notifications d @ new
         \<and> (\<forall>n\<in>set new. food_item_id n = fi_id item)"
  by (simp add: check_item_def Let_def send_notification_notifications)

lemma sweep_loop_appends:
  "\<exists>new. notifications (foldl (check_item now) d rest) = notifications d @ new
         \<and> (\<forall>n\<in>set new. food_item_id n \<in> fi_id ` set rest)"
proof (induction rest arbitrary: d)
  case Nil
  then show ?case by simp
next
  case (Cons a rest)
  obtain new1 where 1: "notifications (check_item now d a) = notifications d @ new1"
    and 2: "\<forall>n\<in>set new1. food_item_id n = fi_id a"
    using check_item_appends by blast
  obtain new2 where 3: "notifications (foldl (check_item now) (check_item now d a) rest)
        = notifications (check_item now d a) @ new2"
    and 4: "\<forall>n\<in>set new2. food_item_id n \<in> fi_id ` set rest"
    using Cons.IH by blast
  have "notifications (foldl (check_item now) d (a # rest)) = notifications d @ (new1 @ new2)"
    using 1 3 by simp
  moreover have "\<forall>n\<in>set (new1 @ new2). food_item_id n \<in> fi_id ` set (a # rest)"
    using 2 4 by auto
  ultimately show ?case by blast
qed

lemma sweep_loop_other:
  assumes "k \<notin> fi_id ` set rest"
  shows "filter (\<lambda>n. food_item_id n = k) (notifications (foldl (check_item now) d rest))
       = filter (\<lambda>n. food_item_id n = k) (notifications d)"
proof -
  obtain new where 1: "notifications (foldl (check_item now) d rest) = notifications d @ new"
    and 2: "\<forall>n\<in>set new. food_item_id n \<in> fi_id ` set rest"
    using sweep_loop_appends by blast
  from 2 assms have "filter (\<lambda>n. food_item_id n = k) new = []"
    by (auto simp: filter_empty_conv)
  with 1 show ?thesis by simp
qed

lemma sweep_loop_food_items:
  "food_items (foldl (check_item now) d rest) =
     map (\<lambda>i. if fi_id i \<in> fi_id ` {a \<in> set rest. calculate_days_until_expiry now (expiry_date a) < 0}
               then i\<lparr>is_expired := True\<rparr> else i) (food_items d)"
proof (induction rest arbitrary: d)
  case Nil
  then show ?case by simp
next
  case (Cons a rest)
  show ?case
    by (simp add: Cons.IH check_item_food_items o_def) (auto intro!: map_cong)
qed

section \<open>How many reminders of a type an item has\<close>

lemma length_sent: "length (sent d k T) = count_list (keys d) (k, T)"
proof -
  have "count_list (map notif_key ns) (k, T)
      = length (filter (\<lambda>n. food_item_id n = k \<and> notification_type n = T) ns)" for ns
    by (induction ns) (auto simp: notif_key_def)
  then show ?thesis by (simp add: sent_def keys_def)
qed

lemma count_list_pairs:
  "count_list (map (Pair k') ts) (k, T) = (if k = k' then count_list ts T else 0)"
  by (induction ts) auto

lemma count_list_distinct: "distinct ts \<Longrightarrow> count_list ts T = (if T \<in> set ts then 1 else 0)"
  by (induction ts) auto

lemma due_types_reminder_iff:
  assumes "T \<noteq> ''expired''"
  shows "T \<in> set (due_types now d item) \<longleftrightarrow>
           T \<in> {''month'', ''week'', ''day''}
         \<and> 0 \<le> calculate_days_until_expiry now (expiry_date item)
         \<and> calculate_days_until_expiry now (expiry_date item) \<le> threshold T
         \<and> (fi_id item, T) \<notin> set (keys d)"
  using assms by (auto simp: due_types_def Let_def)

lemma check_item_count:
  assumes "T \<noteq> ''expired''"
  shows "count_list (keys (check_item now d item)) (k, T) =
     (if count_list (keys d) (k, T) = 0 \<and> k = fi_id item \<and> T \<in> {''month'', ''week'', ''day''}
         \<and> 0 \<le> calculate_days_until_expiry now (expiry_date item)
         \<and> calculate_days_until_expiry now (expiry_date item) \<le> threshold T
      then 1 else count_list (keys d) (k, T))"
  unfolding check_item_keys count_list_append count_list_pairs
    count_list_distinct[OF due_types_distinct] due_types_reminder_iff[OF assms] count_list_0_iff
  by auto

lemma sweep_loop_count:
  assumes "T \<noteq> ''expired''"
  shows "count_list (keys (foldl (check_item now) d rest)) (k, T) =
     (if count_list (keys d) (k, T) = 0 \<and> T \<in> {''month'', ''week'', ''day''}
         \<and> (\<exists>a\<in>set rest. fi_id a = k
               \<and> 0 \<le> calculate_days_until_expiry now (expiry_date a)
               \<and> calculate_days_until_expiry now (expiry_date a) \<le> threshold T)
      then 1 else count_list (keys d) (k, T))"
proof (induction rest arbitrary: d)
  case Nil
  then show ?case by simp
next
  case (Cons a rest)
  show ?case
    unfolding foldl_Cons Cons.IH check_item_count[OF assms]
    by auto
qed

section \<open>After a sweep nothing is left to do that day\<close>

lemma due_types_same_day: "day now' = day now \<Longrightarrow> due_types now' d i = due_types now d i"
  by (simp add: due_types_def days_until_expiry)

lemma nothing_due_iff:
  "due_types now d item = [] \<longleftrightarrow>
     0 \<le> calculate_days_until_expiry now (expiry_date item)
   \<and> (\<forall>T\<in>{''month'', ''week'', ''day''}.
         calculate_days_until_expiry now (expiry_date item) \<le> threshold T
           \<longrightarrow> (fi_id item, T) \<in> set (keys d))"
  by (auto simp: due_types_def Let_def)

lemma check_item_nothing_due:
  assumes "due_types now d item = []"
  shows "check_item now d item = d"
proof -
  let ?days = "calculate_days_until_expiry now (expiry_date item)"
  from assms have "\<not> ?days < 0"
    and "?days \<le> 30 \<longrightarrow> (fi_id item, ''month'') \<in> set (keys d)"
    and "?days \<le> 7 \<longrightarrow> (fi_id item, ''week'') \<in> set (keys d)"
    and "?days \<le> 1 \<longrightarrow> (fi_id item, ''day'') \<in> set (keys d)"
    by (auto simp: nothing_due_iff threshold_def)
  then show ?thesis
    unfolding check_item_def Let_def types_sent_iff by auto
qed

lemma sweep_loop_nothing_due:
  "\<forall>a\<in>set rest. due_types now d a = [] \<Longrightarrow> foldl (check_item now) d rest = d"
  by (induction rest) (simp_all add: check_item_nothing_due)

lemma settled_sweep:
  assumes "settled now d" and "day now' = day now"
  shows "check_and_send_notifications now' d = d"
proof -
  have "due_types now' d a = due_types now d a" for a
    using assms(2) by (rule due_types_same_day)
  with assms(1) have "\<forall>a\<in>set (filter (\<lambda>i. \<not> is_expired i) (food_items d)). due_types now' d a = []"
    by (simp add: settled_def)
  then show ?thesis
    unfolding check_and_send_notifications_def Let_def by (rule sweep_loop_nothing_due)
qed

lemma nothing_due_mono:
  assumes "due_types now d i = []" and "set (keys d) \<subseteq> set (keys d')"
  shows "due_types now d' i = []"
  using assms unfolding nothing_due_iff by blast

lemma check_item_keys_mono: "set (keys d) \<subseteq> set (keys (check_item now d a))"
  by (simp add: check_item_keys)

lemma check_item_settles:
  assumes "0 \<le> calculate_days_until_expiry now (expiry_date a)"
  shows "due_types now (check_item now d a) a = []"
  unfolding nothing_due_iff
proof (intro conjI ballI impI)
  show "0 \<le> calculate_days_until_expiry now (expiry_date a)" by (rule assms)
next
  fix T assume T: "T \<in> {''month'', ''week'', ''day''}"
    and le: "calculate_days_until_expiry now (expiry_date a) \<le> threshold T"
  from T have "T \<noteq> ''expired''" by auto
  then have "T \<in> set (due_types now d a) \<or> (fi_id a, T) \<in> set (keys d)"
    using T le assms by (auto simp: due_types_reminder_iff)
  then show "(fi_id a, T) \<in> set (keys (check_item now d a))"
    by (auto simp: check_item_keys)
qed

lemma sweep_loop_settles:
  assumes "\<forall>i\<in>set (food_items d). is_expired i \<or> due_types now d i = [] \<or> i \<in> set rest"
  shows "settled now (foldl (check_item now) d rest)"
  using assms
proof (induction rest arbitrary: d)
  case Nil
  then show ?case by (auto simp: settled_def)
next
  case (Cons a rest)
  let ?d = "check_item now d a"
  have "\<forall>i\<in>set (food_items ?d). is_expired i \<or> due_types now ?d i = [] \<or> i \<in> set rest"
  proof
    fix i assume i: "i \<in> set (food_items ?d)"
    show "is_expired i \<or> due_types now ?d i = [] \<or> i \<in> set rest"
    proof (cases "is_expired i")
      case True
      then show ?thesis by simp
    next
      case False
      with i have old: "i \<in> set (food_items d)"
        and other: "calculate_days_until_expiry now (expiry_date a) < 0 \<longrightarrow> fi_id i \<noteq> fi_id a"
        by (auto simp: check_item_food_items split: if_splits)
      from Cons.prems old False
      consider "due_types now d i = []" | "i = a" | "i \<in> set rest" by auto
      then show ?thesis
      proof cases
        case 1
        then show ?thesis using nothing_due_mono[OF _ check_item_keys_mono] by blast
      next
        case 2
        with other have "0 \<le> calculate_days_until_expiry now (expiry_date a)" by auto
        with 2 show ?thesis by (simp add: check_item_settles)
      next
        case 3
        then show ?thesis by simp
      qed
    qed
  qed
  then show ?case using Cons.IH by simp
qed

lemma sweep_settled: "settled now (check_and_send_notifications now d)"
  unfolding check_and_send_notifications_def Let_def
  by (rule sweep_loop_settles) auto

section \<open>Signup\<close>

lemma signup_taken:
  assumes "\<exists>u\<in>set (users d). username u = uname \<or> email u = mail"
  shows "signup H uname mail pw ph d
       = (TemplateResponse ''signup.html'' (Some ''Username or email already exists''), d)"
proof (cases "find (\<lambda>u. username u = uname \<or> email u = mail) (users d)")
  case None
  with assms show ?thesis by (auto simp: find_None_iff)
next
  case (Some v)
  then show ?thesis by (simp add: signup_def)
qed

lemma signup_fresh:
  assumes "\<not> (\<exists>u\<in>set (users d). username u = uname \<or> email u = mail)"
  shows "signup H uname mail pw ph d
       = (RedirectResponse ''/login'' 302,
          d\<lparr>users := users d @
              [\<lparr>u_id = next_id (map u_id (users d)), username = uname, email = mail,
                password = H pw, phone = (if ph = [] then None else Some ph),
                is_admin = (users d = []), is_approved = (users d = [])\<rparr>]\<rparr>)"
proof -
  from assms have "find (\<lambda>u. username u = uname \<or> email u = mail) (users d) = None"
    by (simp add: find_None_iff)
  then show ?thesis by (simp add: signup_def Let_def)
qed

section \<open>Primary keys, sessions and the users table\<close>




lemma get_user_Some: "get_user d uid = Some u \<Longrightarrow> u \<in> set (users d) \<and> u_id u = uid"
  by (auto simp: get_user_def find_Some_iff)



lemma sweep_users [simp]: "users (check_and_send_notifications now d) = users d"
proof -
  have "users (foldl (check_item now) d rest) = users d" for rest
    by (induction rest arbitrary: d) simp_all
  then show ?thesis by (simp add: check_and_send_notifications_def)
qed

lemma dashboard_users [simp]: "users (snd (dashboard now sess d)) = users d"
proof -
  have "users (foldl (dashboard_item now) d' items) = users d'" for items d'
    by (induction items arbitrary: d') (simp_all add: dashboard_item_def Let_def)
  then show ?thesis by (simp add: dashboard_def Let_def split: sum.splits)
qed

lemma add_item_users [simp]: "users (snd (add_item sess nm bc cat expiry qty pr img d)) = users d"
  by (simp add: add_item_def Let_def split: sum.splits option.splits)

lemma delete_item_users [simp]: "users (snd (delete_item sess k d)) = users d"
  by (simp add: delete_item_def split: sum.splits option.splits)

lemma mark_item_used_users [simp]: "users (snd (mark_item_used sess k d)) = users d"
  by (simp add: mark_item_used_def split: sum.splits option.splits)

section \<open>A user who waits for approval\<close>







section \<open>C1: one notification per item and type\<close>

lemma pantry_ok: "store_ok pantry"
  by (simp add: store_ok_def one_notification_per_pair_def expired_flag_consistent_def keys_def
      pantry_def item_at_def)

text \<open>
  The store \<open>stale\<close> arises when an item is added, swept after its date, deleted, and
  an item is added again: the new row takes the identifier of the deleted one, whose
  notification is still there.
\<close>

lemma stale_reached:
  "serve_all H
     [(noon, Some 1, AddItem ''milk'' [] [] (Some \<lparr>day = 99, tod = 0\<rparr>) 1 None None),
      (noon, None, CheckNotifications),
      (noon, Some 1, DeleteItem 1),
      (noon, Some 1, AddItem ''milk'' [] [] (Some \<lparr>day = 99, tod = 0\<rparr>) 1 None None)]
     \<lparr>users = [alice], food_items = [], notifications = []\<rparr> = stale"
  by (simp add: stale_def add_item_def delete_item_def check_notifications_endpoint_def
      check_and_send_notifications_def check_item_def send_notification_def set_expired_def
      days_until_expiry get_current_user_def require_login_def get_user_def alice_def
      next_id_def item_at_def noon_def Let_def)

text \<open>
  Claim C1, as amended. In a store where the food items have distinct identifiers, there is
  at most one notification per pair of item identifier and type, and no item that is not
  flagged expired has an \<open>expired\<close> notification, the notification sweep and the dashboard
  view leave at most one notification per pair, for all four types; and every sequence
  of sweeps and dashboard views keeps the three facts.
\<close>

theorem one_per_pair_preserved:
  assumes "store_ok d"
  shows "one_notification_per_pair (check_and_send_notifications now d)
       \<and> one_notification_per_pair (snd (dashboard now sess d))
       \<and> ((\<forall>q\<in>set rs. snd (snd q) = Dashboard \<or> snd (snd q) = CheckNotifications)
            \<longrightarrow> store_ok (serve_all H rs d))"
  using sweep_store_ok[OF assms, of now] dashboard_store_ok[OF assms, of now sess]
    views_store_ok[OF assms, of rs H]
  by (simp add: store_ok_def)

theorem one_per_pair_preserved_witness:
  "store_ok pantry
   \<and> one_notification_per_pair (check_and_send_notifications noon pantry)
   \<and> one_notification_per_pair (snd (dashboard noon (Some 1) pantry))
   \<and> store_ok (serve_all (\<lambda>p. p) [(noon, Some 1, Dashboard), (noon, None, CheckNotifications)] pantry)"
  using one_per_pair_preserved[OF pantry_ok, of noon "Some 1"
      "[(noon, Some 1, Dashboard), (noon, None, CheckNotifications)]" "\<lambda>p. p"] pantry_ok
  by simp

text \<open>
  The claim as stated, for every store with at most one notification per pair, fails: the
  \<open>expired\<close> notification is sent without a look at the item's history. In \<open>stale\<close> the
  sweep records a second \<open>expired\<close> notification for item 1.
\<close>

theorem one_per_pair_counterexample:
  "one_notification_per_pair stale
   \<and> \<not> one_notification_per_pair (check_and_send_notifications noon stale)"
proof -
  have k: "keys stale = [(1, ''expired'')]"
    by (simp add: keys_def notif_key_def stale_def)
  have "check_and_send_notifications noon stale = check_item noon stale (item_at 1 1 ''milk'' 99)"
    by (simp add: check_and_send_notifications_def stale_def item_at_def)
  moreover have "due_types noon stale (item_at 1 1 ''milk'' 99) = [''expired'']"
    by (simp add: due_types_def days_until_expiry item_at_def noon_def)
  ultimately have "keys (check_and_send_notifications noon stale) = [(1, ''expired''), (1, ''expired'')]"
    by (simp add: check_item_keys k item_at_def)
  with k show ?thesis
    by (simp add: one_notification_per_pair_def)
qed

section \<open>C2: an item past its date\<close>

lemma sweep_appends_emitted:
  "notifications (check_and_send_notifications now d)
     = notifications d @ emitted d (check_and_send_notifications now d)"
proof -
  obtain new where "notifications (check_and_send_notifications now d) = notifications d @ new"
    unfolding check_and_send_notifications_def Let_def using sweep_loop_appends by blast
  then show ?thesis by (simp add: emitted_def)
qed

lemma sweep_flags_past_item:
  assumes "item \<in> set (food_items d)" and "\<not> is_expired item"
    and "calculate_days_until_expiry now (expiry_date item) < 0"
  shows "item\<lparr>is_expired := True\<rparr> \<in> set (food_items (check_and_send_notifications now d))"
proof -
  let ?S = "filter (\<lambda>i. \<not> is_expired i) (food_items d)"
  let ?past = "{a \<in> set ?S. calculate_days_until_expiry now (expiry_date a) < 0}"
  let ?f = "\<lambda>i. if fi_id i \<in> fi_id ` ?past then i\<lparr>is_expired := True\<rparr> else i"
  from assms have "item \<in> ?past" by simp
  then have "fi_id item \<in> fi_id ` ?past" by (rule imageI)
  then have "?f item = item\<lparr>is_expired := True\<rparr>" by simp
  moreover from assms(1) have "?f item \<in> ?f ` set (food_items d)" by (rule imageI)
  ultimately show ?thesis
    unfolding check_and_send_notifications_def Let_def sweep_loop_food_items by simp
qed

lemma sweep_past_item_notifications:
  assumes "distinct (map fi_id (food_items d))" and "item \<in> set (food_items d)"
    and "\<not> is_expired item" and "calculate_days_until_expiry now (expiry_date item) < 0"
  shows "\<exists>nid. filter (\<lambda>n. food_item_id n = fi_id item)
                 (notifications (check_and_send_notifications now d))
             = filter (\<lambda>n. food_item_id n = fi_id item) (notifications d) @
               [\<lparr>n_id = nid, n_user_id = user_id item, food_item_id = fi_id item,
                 notification_type = ''expired'', message = name item @ '' has expired!''\<rparr>]"
proof -
  let ?S = "filter (\<lambda>i. \<not> is_expired i) (food_items d)"
  let ?k = "\<lambda>n. food_item_id n = fi_id item"
  from assms have "item \<in> set ?S" by simp
  then obtain pre post where S: "?S = pre @ item # post" by (auto dest: split_list)
  from assms(1) have "distinct (map fi_id ?S)" by (rule distinct_map_filter)
  with S have pre: "fi_id item \<notin> fi_id ` set pre" and post: "fi_id item \<notin> fi_id ` set post"
    by auto
  let ?dp = "foldl (check_item now) d pre"
  let ?e = "\<lparr>n_id = next_id (map n_id (notifications ?dp)), n_user_id = user_id item,
             food_item_id = fi_id item, notification_type = ''expired'',
             message = name item @ '' has expired!''\<rparr>"
  have "notifications (check_item now ?dp item) = notifications ?dp @ [?e]"
    using assms(4) by (simp add: check_item_def Let_def send_notification_notifications)
  then have "filter ?k (notifications (check_item now ?dp item)) = filter ?k (notifications ?dp) @ [?e]"
    by simp
  also have "filter ?k (notifications ?dp) = filter ?k (notifications d)"
    using pre by (rule sweep_loop_other)
  finally have "filter ?k (notifications (foldl (check_item now) (check_item now ?dp item) post))
      = filter ?k (notifications d) @ [?e]"
    using sweep_loop_other[OF post] by simp
  then have "filter ?k (notifications (check_and_send_notifications now d))
      = filter ?k (notifications d) @ [?e]"
    unfolding check_and_send_notifications_def Let_def S by simp
  then show ?thesis by blast
qed

text \<open>
  Claim C2. In one notification sweep, an item that is not flagged expired and whose
  \<open>days_left\<close> is negative comes out flagged expired, and the notifications the sweep
  writes for it are exactly one, of type \<open>expired\<close>: none of the month, week and day
  reminders is sent for it in that pass. The food items have distinct identifiers (the
  table's primary key).
\<close>

theorem expired_item_swept:
  assumes "distinct (map fi_id (food_items d))" and "item \<in> set (food_items d)"
    and "\<not> is_expired item" and "calculate_days_until_expiry now (expiry_date item) < 0"
  shows "item\<lparr>is_expired := True\<rparr> \<in> set (food_items (check_and_send_notifications now d))
       \<and> notifications (check_and_send_notifications now d)
           = notifications d @ emitted d (check_and_send_notifications now d)
       \<and> (\<exists>nid. filter (\<lambda>n. food_item_id n = fi_id item)
                   (emitted d (check_and_send_notifications now d))
               = [\<lparr>n_id = nid, n_user_id = user_id item, food_item_id = fi_id item,
                   notification_type = ''expired'', message = name item @ '' has expired!''\<rparr>])"
proof -
  let ?d' = "check_and_send_notifications now d"
  let ?k = "\<lambda>n. food_item_id n = fi_id item"
  obtain nid where "filter ?k (notifications ?d') = filter ?k (notifications d) @
      [\<lparr>n_id = nid, n_user_id = user_id item, food_item_id = fi_id item,
        notification_type = ''expired'', message = name item @ '' has expired!''\<rparr>]"
    using sweep_past_item_notifications[OF assms] by blast
  moreover have "filter ?k (notifications ?d') = filter ?k (notifications d) @ filter ?k (emitted d ?d')"
    by (subst sweep_appends_emitted) simp
  ultimately have "filter ?k (emitted d ?d') =
      [\<lparr>n_id = nid, n_user_id = user_id item, food_item_id = fi_id item,
        notification_type = ''expired'', message = name item @ '' has expired!''\<rparr>]"
    by simp
  with sweep_flags_past_item[OF assms(2-4)] sweep_appends_emitted[of now d] show ?thesis
    by blast
qed

theorem expired_item_swept_witness:
  "distinct (map fi_id (food_items pantry)) \<and> item_at 1 1 ''milk'' 99 \<in> set (food_items pantry)
   \<and> \<not> is_expired (item_at 1 1 ''milk'' 99)
   \<and> calculate_days_until_expiry noon (expiry_date (item_at 1 1 ''milk'' 99)) < 0
   \<and> (item_at 1 1 ''milk'' 99)\<lparr>is_expired := True\<rparr>
        \<in> set (food_items (check_and_send_notifications noon pantry))
   \<and> (\<exists>nid. filter (\<lambda>n. food_item_id n = 1) (emitted pantry (check_and_send_notifications noon pantry))
          = [\<lparr>n_id = nid, n_user_id = 1, food_item_id = 1,
              notification_type = ''expired'', message = ''milk has expired!''\<rparr>])"
proof -
  have 1: "distinct (map fi_id (food_items pantry))"
    by (simp add: pantry_def item_at_def)
  have 2: "item_at 1 1 ''milk'' 99 \<in> set (food_items pantry)"
    by (simp add: pantry_def)
  have 3: "\<not> is_expired (item_at 1 1 ''milk'' 99)"
    by (simp add: item_at_def)
  have 4: "calculate_days_until_expiry noon (expiry_date (item_at 1 1 ''milk'' 99)) < 0"
    by (simp add: days_until_expiry item_at_def noon_def)
  from expired_item_swept[OF 1 2 3 4] 1 2 3 4 show ?thesis
    by (simp add: item_at_def)
qed

section \<open>C3: the staged reminders\<close>

lemma sweep_count:
  assumes "T \<noteq> ''expired''"
  shows "length (sent (check_and_send_notifications now d) k T) =
     (if length (sent d k T) = 0 \<and> T \<in> {''month'', ''week'', ''day''}
         \<and> (\<exists>a\<in>set (food_items d). \<not> is_expired a \<and> fi_id a = k
               \<and> 0 \<le> calculate_days_until_expiry now (expiry_date a)
               \<and> calculate_days_until_expiry now (expiry_date a) \<le> threshold T)
      then 1 else length (sent d k T))"
  unfolding length_sent check_and_send_notifications_def Let_def sweep_loop_count[OF assms]
  by auto

text \<open>
  Claim C3. For an item that is not flagged expired, has no notification yet and expires
  in exactly 30, 7 or 1 days, one notification sweep leaves exactly one notification of the
  corresponding type (\<open>month\<close>, \<open>week\<close>, \<open>day\<close>) for it, and a second sweep, whatever its
  clock reading, adds none of that type.
\<close>

theorem threshold_reminder_once:
  assumes "item \<in> set (food_items d)" and "\<not> is_expired item"
    and "\<forall>n\<in>set (notifications d). food_item_id n \<noteq> fi_id item"
    and "(calculate_days_until_expiry now (expiry_date item), T)
           \<in> {(30, ''month''), (7, ''week''), (1, ''day'')}"
  shows "length (sent d (fi_id item) T) = 0
       \<and> length (sent (check_and_send_notifications now d) (fi_id item) T) = 1
       \<and> length (sent (check_and_send_notifications now'
                         (check_and_send_notifications now d)) (fi_id item) T) = 1"
proof -
  from assms(4) have T: "T \<noteq> ''expired''" and T': "T \<in> {''month'', ''week'', ''day''}"
    and lo: "0 \<le> calculate_days_until_expiry now (expiry_date item)"
    and hi: "calculate_days_until_expiry now (expiry_date item) \<le> threshold T"
    by (auto simp: threshold_def)
  from assms(3) have 0: "length (sent d (fi_id item) T) = 0"
    by (auto simp: sent_def filter_empty_conv)
  from assms(1,2) lo hi
  have "\<exists>a\<in>set (food_items d). \<not> is_expired a \<and> fi_id a = fi_id item
          \<and> 0 \<le> calculate_days_until_expiry now (expiry_date a)
          \<and> calculate_days_until_expiry now (expiry_date a) \<le> threshold T"
    by blast
  with 0 T' have 1: "length (sent (check_and_send_notifications now d) (fi_id item) T) = 1"
    unfolding sweep_count[OF T] by simp
  have "length (sent (check_and_send_notifications now'
                         (check_and_send_notifications now d)) (fi_id item) T) = 1"
    unfolding sweep_count[OF T, of now'] using 1 by simp
  with 0 1 show ?thesis by blast
qed

theorem threshold_reminder_once_witness:
  "item_at 2 1 ''eggs'' 107 \<in> set (food_items pantry)
   \<and> \<not> is_expired (item_at 2 1 ''eggs'' 107)
   \<and> calculate_days_until_expiry noon (expiry_date (item_at 2 1 ''eggs'' 107)) = 7
   \<and> length (sent pantry 2 ''week'') = 0
   \<and> length (sent (check_and_send_notifications noon pantry) 2 ''week'') = 1
   \<and> length (sent (check_and_send_notifications noon
                     (check_and_send_notifications noon pantry)) 2 ''week'') = 1"
proof -
  have 1: "item_at 2 1 ''eggs'' 107 \<in> set (food_items pantry)"
    by (simp add: pantry_def)
  have 2: "\<not> is_expired (item_at 2 1 ''eggs'' 107)"
    by (simp add: item_at_def)
  have 3: "\<forall>n\<in>set (notifications pantry). food_item_id n \<noteq> fi_id (item_at 2 1 ''eggs'' 107)"
    by (simp add: pantry_def)
  have 4: "calculate_days_until_expiry noon (expiry_date (item_at 2 1 ''eggs'' 107)) = 7"
    by (simp add: days_until_expiry item_at_def noon_def)
  then have 5: "(calculate_days_until_expiry noon (expiry_date (item_at 2 1 ''eggs'' 107)), ''week'')
           \<in> {(30, ''month''), (7, ''week''), (1, ''day'')}"
    by simp
  have 6: "fi_id (item_at 2 1 ''eggs'' 107) = 2"
    by (simp add: item_at_def)
  from threshold_reminder_once[OF 1 2 3 5, of noon] 1 2 4 show ?thesis
    unfolding 6 by blast
qed

section \<open>C4: the dashboard view is idempotent\<close>

lemma settled_not_past:
  assumes "settled now d" and "i \<in> set (food_items d)" and "\<not> is_expired i"
    and "day now' = day now"
  shows "\<not> calculate_days_until_expiry now' (expiry_date i) < 0"
proof -
  from assms(1-3) have "due_types now d i = []" by (simp add: settled_def)
  then have "0 \<le> calculate_days_until_expiry now (expiry_date i)" by (simp add: nothing_due_iff)
  with assms(4) show ?thesis by (simp add: days_until_expiry)
qed

lemma settled_dashboard_loop:
  assumes "settled now d" and "day now' = day now" and "set items \<subseteq> set (food_items d)"
  shows "foldl (dashboard_item now') d items = d"
  using assms(3)
proof (induction items)
  case Nil
  then show ?case by simp
next
  case (Cons a items)
  then have "a \<in> set (food_items d)" by simp
  then have "dashboard_item now' d a = d"
    using settled_not_past[OF assms(1) _ _ assms(2), of a] by (auto simp: dashboard_item_def Let_def)
  with Cons show ?case by simp
qed

lemma dashboard_is_sweep:
  assumes "get_current_user sess d = Inr u"
  shows "snd (dashboard now sess d) = check_and_send_notifications now d"
proof -
  let ?d1 = "check_and_send_notifications now d"
  let ?items = "sort_key (\<lambda>i. (day (expiry_date i), tod (expiry_date i)))
                  (filter (\<lambda>i. user_id i = u_id u \<and> \<not> is_used i) (food_items ?d1))"
  have "set ?items \<subseteq> set (food_items ?d1)" by auto
  with sweep_settled have "foldl (dashboard_item now) ?d1 ?items = ?d1"
    by (rule settled_dashboard_loop[OF _ refl])
  with assms show ?thesis by (simp add: dashboard_def Let_def)
qed

lemma settled_dashboard:
  assumes "settled now d" and "day now' = day now"
  shows "snd (dashboard now' sess d) = d"
proof (cases "get_current_user sess d")
  case (Inl e)
  then show ?thesis by (simp add: dashboard_def)
next
  case (Inr u)
  then show ?thesis
    by (simp add: dashboard_is_sweep settled_sweep[OF assms])
qed

lemma settled_views:
  assumes "settled now d" and "\<forall>q\<in>set rs. day (fst q) = day now \<and> snd (snd q) = Dashboard"
  shows "serve_all H rs d = d"
  using assms(2)
proof (induction rs)
  case Nil
  then show ?case by simp
next
  case (Cons q rs)
  obtain now' sess r where q: "q = (now', sess, r)" by (cases q)
  with Cons.prems have "day now' = day now" and "r = Dashboard" by simp_all
  then have "snd (serve H now' sess r d) = d"
    by (simp add: settled_dashboard[OF assms(1)])
  with Cons show ?case by (simp add: q)
qed

lemma sweep_flags_past:
  assumes "item \<in> set (food_items d)"
    and "calculate_days_until_expiry now (expiry_date item) < 0"
  shows "item\<lparr>is_expired := True\<rparr> \<in> set (food_items (check_and_send_notifications now d))"
proof (cases "is_expired item")
  case False
  with assms show ?thesis by (simp add: sweep_flags_past_item)
next
  case True
  then have same: "item\<lparr>is_expired := True\<rparr> = item" by simp
  let ?f = "\<lambda>i. if fi_id i \<in> fi_id ` {a \<in> set (filter (\<lambda>i. \<not> is_expired i) (food_items d)).
                     calculate_days_until_expiry now (expiry_date a) < 0}
                then i\<lparr>is_expired := True\<rparr> else i"
  from same have "?f item = item" by simp
  moreover from assms(1) have "?f item \<in> ?f ` set (food_items d)" by (rule imageI)
  ultimately have "item \<in> set (food_items (check_and_send_notifications now d))"
    unfolding check_and_send_notifications_def Let_def sweep_loop_food_items by simp
  with same show ?thesis by simp
qed

text \<open>
  Claim C4. When a user's dashboard is viewed, every item whose expiry date lies before
  today's date is flagged expired afterwards; and a dashboard view on the same day after
  that, for whatever session, leaves the whole store as it is (the item's flags and the
  notifications with it), and so does every sequence of such views.
\<close>

theorem dashboard_marks_expired_idempotent:
  assumes "get_current_user sess d = Inr u" and "item \<in> set (food_items d)"
    and "calculate_days_until_expiry now (expiry_date item) < 0"
    and "day now' = day now"
  shows "item\<lparr>is_expired := True\<rparr> \<in> set (food_items (snd (dashboard now sess d)))
       \<and> snd (dashboard now' sess' (snd (dashboard now sess d))) = snd (dashboard now sess d)
       \<and> ((\<forall>q\<in>set rs. day (fst q) = day now \<and> snd (snd q) = Dashboard)
            \<longrightarrow> serve_all H rs (snd (dashboard now sess d)) = snd (dashboard now sess d))"
  unfolding dashboard_is_sweep[OF assms(1)]
  using sweep_flags_past[OF assms(2,3)] settled_dashboard[OF sweep_settled assms(4)]
    settled_views[OF sweep_settled]
  by blast

theorem dashboard_marks_expired_idempotent_witness:
  "get_current_user (Some 1) pantry = Inr alice
   \<and> item_at 1 1 ''milk'' 99 \<in> set (food_items pantry)
   \<and> calculate_days_until_expiry noon (expiry_date (item_at 1 1 ''milk'' 99)) < 0
   \<and> day (noon\<lparr>tod := 0\<rparr>) = day noon
   \<and> (item_at 1 1 ''milk'' 99)\<lparr>is_expired := True\<rparr>
        \<in> set (food_items (snd (dashboard noon (Some 1) pantry)))
   \<and> snd (dashboard (noon\<lparr>tod := 0\<rparr>) None (snd (dashboard noon (Some 1) pantry)))
        = snd (dashboard noon (Some 1) pantry)
   \<and> serve_all (\<lambda>p. p) [(noon, Some 1, Dashboard), (noon\<lparr>tod := 0\<rparr>, Some 1, Dashboard)]
        (snd (dashboard noon (Some 1) pantry)) = snd (dashboard noon (Some 1) pantry)"
proof -
  have 1: "get_current_user (Some 1) pantry = Inr alice"
    by (simp add: get_current_user_def require_login_def get_user_def pantry_def alice_def)
  have 2: "item_at 1 1 ''milk'' 99 \<in> set (food_items pantry)"
    by (simp add: pantry_def)
  have 3: "calculate_days_until_expiry noon (expiry_date (item_at 1 1 ''milk'' 99)) < 0"
    by (simp add: days_until_expiry item_at_def noon_def)
  have 4: "day (noon\<lparr>tod := 0\<rparr>) = day noon"
    by simp
  from dashboard_marks_expired_idempotent[OF 1 2 3 4, of None
      "[(noon, Some 1, Dashboard), (noon\<lparr>tod := 0\<rparr>, Some 1, Dashboard)]" "\<lambda>p. p"] 1 2 3 4
  show ?thesis by simp
qed

section \<open>C5: the statistics calculator\<close>

lemma py_round_0 [simp]: "py_round 0 n = 0"
  by (simp add: py_round_def round_half_even_def)

lemma price_or_5_described: "p \<noteq> Some 0 \<Longrightarrow> price_or_5 p = price_or_fallback p"
  by (simp add: price_or_5_def price_or_fallback_def split: option.splits)

text \<open>
  For a user none of whose items has the price 0.0, the calculator returns what its
  description says: the four counts, the two sums with the fallback for an absent price,
  and the percentage, rounded.
\<close>

lemma stats_as_described:
  assumes "\<forall>i\<in>set (food_items d). user_id i = uid \<longrightarrow> price i \<noteq> Some 0"
  shows "calculate_user_stats d uid = described_stats d uid"
proof -
  let ?items = "filter (\<lambda>i. user_id i = uid) (food_items d)"
  have "map (\<lambda>i. price_or_5 (price i)) (filter P ?items)
      = map (\<lambda>i. price_or_fallback (price i)) (filter P ?items)" for P
    using assms by (intro map_cong refl price_or_5_described) auto
  then have eq: "sum_list (map (\<lambda>i. price_or_5 (price i)) (filter P ?items))
      = sum_list (map (\<lambda>i. price_or_fallback (price i)) (filter P ?items))" for P
    by (rule arg_cong)
  show ?thesis
    unfolding calculate_user_stats_def described_stats_def described_money_def Let_def eq
    by simp
qed

text \<open>The example of the description: 5.0 used, 3.0 expired, no price used.\<close>

lemma stats_three_items:
  "calculate_user_stats three_items 1 =
     \<lparr>total_items = 3, expired_items = 1, used_items = 2, active_items = 0,
      money_saved = 10, money_wasted = 3, waste_percentage = 333 / 10\<rparr>"
proof -
  have "\<lfloor>(1000::rat) / 3\<rfloor> = 333"
    by code_simp
  then show ?thesis
    by (simp add: three_items_def item_at_def calculate_user_stats_def Let_def price_or_5_def
      py_round_def round_half_even_def)
qed

lemma giveaway_reached:
  "serve_all H
     [(noon, Some 1, AddItem ''water'' [] [] (Some \<lparr>day = 130, tod = 0\<rparr>) 1 (Some 0) None),
      (noon, Some 1, MarkItemUsed 1)]
     \<lparr>users = [alice], food_items = [], notifications = []\<rparr> = giveaway"
  by (simp add: giveaway_def add_item_def mark_item_used_def get_current_user_def
      require_login_def get_user_def alice_def next_id_def item_at_def Let_def)

text \<open>
  Claim C5 at a used item whose price is 0.0. The description gives 0.0 as the money
  saved, the sum of the prices of the used items; the calculator returns 5.0, because
  \<open>i.price or 5.0\<close> takes the fallback for the price 0.0 as it does for an absent one.
\<close>

theorem zero_price_counts_as_five:
  "map price (filter is_used (filter (\<lambda>i. user_id i = 1) (food_items giveaway))) = [Some 0]
   \<and> described_money (filter is_used (filter (\<lambda>i. user_id i = 1) (food_items giveaway))) = 0
   \<and> money_saved (described_stats giveaway 1) = 0
   \<and> money_saved (calculate_user_stats giveaway 1) = 5"
  by (simp add: giveaway_def item_at_def calculate_user_stats_def described_stats_def Let_def
      price_or_5_def described_money_def price_or_fallback_def py_round_def round_half_even_def)

section \<open>C6: the first user and those who follow\<close>



section \<open>C7: signup with a taken name or email\<close>

text \<open>
  Claim C7. Signup answers with its error page exactly when some user of the store already
  has the requested username or the requested email, and it then leaves the store as it
  is; otherwise it redirects to the login page and the store has one user more.
\<close>

theorem signup_fails_iff_taken:
  "(fst (signup H uname mail pw ph d)
      = TemplateResponse ''signup.html'' (Some ''Username or email already exists'')
     \<longleftrightarrow> (\<exists>u\<in>set (users d). username u = uname \<or> email u = mail))
   \<and> (fst (signup H uname mail pw ph d) = RedirectResponse ''/login'' 302
     \<longleftrightarrow> \<not> (\<exists>u\<in>set (users d). username u = uname \<or> email u = mail))
   \<and> ((\<exists>u\<in>set (users d). username u = uname \<or> email u = mail)
        \<longrightarrow> snd (signup H uname mail pw ph d) = d)
   \<and> (\<not> (\<exists>u\<in>set (users d). username u = uname \<or> email u = mail)
        \<longrightarrow> length (users (snd (signup H uname mail pw ph d))) = length (users d) + 1)"
proof (cases "\<exists>u\<in>set (users d). username u = uname \<or> email u = mail")
  case True
  then show ?thesis by (simp add: signup_taken)
next
  case False
  then show ?thesis unfolding signup_fresh[OF False] by simp
qed

theorem signup_fails_iff_taken_witness:
  "(\<exists>u\<in>set (users pantry). username u = ''bob'' \<or> email u = ''alice@example.org'')
   \<and> signup (\<lambda>p. p) ''bob'' ''alice@example.org'' ''pw'' '''' pantry
        = (TemplateResponse ''signup.html'' (Some ''Username or email already exists''), pantry)
   \<and> \<not> (\<exists>u\<in>set (users pantry). username u = ''bob'' \<or> email u = ''bob@example.org'')
   \<and> fst (signup (\<lambda>p. p) ''bob'' ''bob@example.org'' ''pw'' '''' pantry)
        = RedirectResponse ''/login'' 302
   \<and> length (users (snd (signup (\<lambda>p. p) ''bob'' ''bob@example.org'' ''pw'' '''' pantry))) = 2"
proof -
  have 1: "\<exists>u\<in>set (users pantry). username u = ''bob'' \<or> email u = ''alice@example.org''"
    by (simp add: pantry_def alice_def)
  have 2: "\<not> (\<exists>u\<in>set (users pantry). username u = ''bob'' \<or> email u = ''bob@example.org'')"
    by (simp add: pantry_def alice_def)
  have 3: "length (users pantry) = 1"
    by (simp add: pantry_def)
  from signup_fails_iff_taken[of "\<lambda>p. p" "''bob''" "''alice@example.org''" "''pw''" "''''" pantry]
    signup_fails_iff_taken[of "\<lambda>p. p" "''bob''" "''bob@example.org''" "''pw''" "''''" pantry]
    1 2 3
  show ?thesis by (auto simp: prod_eq_iff)
qed

section \<open>C8 and C10: deleting a user\<close>

text \<open>
  Claim C8. For an administrator's session and an existing target user other than the
  administrator, the delete-user request removes the target from the users table and
  every food item the target owns from the food items table; the food items of every
  other user, in their order, and the notifications stay as they are.
\<close>

theorem delete_user_cascades:
  assumes "require_admin sess d = Inr admin" and "uid \<noteq> u_id admin"
    and "get_user d uid = Some target"
  shows "fst (delete_user sess uid d) = RedirectResponse ''/admin/dashboard'' 302
       \<and> users (snd (delete_user sess uid d)) = filter (\<lambda>v. u_id v \<noteq> uid) (users d)
       \<and> target \<notin> set (users (snd (delete_user sess uid d)))
       \<and> food_items (snd (delete_user sess uid d)) = filter (\<lambda>i. user_id i \<noteq> uid) (food_items d)
       \<and> (\<forall>i\<in>set (food_items (snd (delete_user sess uid d))). user_id i \<noteq> uid)
       \<and> (\<forall>i\<in>set (food_items d). user_id i \<noteq> uid
             \<longrightarrow> i \<in> set (food_items (snd (delete_user sess uid d))))
       \<and> notifications (snd (delete_user sess uid d)) = notifications d"
proof -
  from assms(3) have "u_id target = uid" using get_user_Some by blast
  with assms show ?thesis by (simp add: delete_user_def)
qed

theorem delete_user_cascades_witness:
  "require_admin (Some 1) household = Inr alice \<and> 2 \<noteq> u_id alice
   \<and> get_user household 2 = Some carol
   \<and> users (snd (delete_user (Some 1) 2 household)) = [alice]
   \<and> food_items (snd (delete_user (Some 1) 2 household))
        = [item_at 1 1 ''milk'' 99, item_at 3 1 ''eggs'' 107]"
proof -
  have 1: "require_admin (Some 1) household = Inr alice"
    by (simp add: household_def require_admin_def require_login_def get_user_def alice_def)
  have 2: "2 \<noteq> u_id alice"
    by (simp add: alice_def)
  have 3: "get_user household 2 = Some carol"
    by (simp add: household_def get_user_def alice_def carol_def)
  from delete_user_cascades[OF 1 2 3] 1 2 3 show ?thesis
    by (simp add: household_def item_at_def alice_def carol_def)
qed

text \<open>
  Claim C10. For an administrator's session, the delete-user request for the
  administrator's own identifier leaves the store as it is and redirects to the admin
  dashboard.
\<close>

theorem delete_own_account_noop:
  assumes "require_admin sess d = Inr admin"
  shows "delete_user sess (u_id admin) d = (RedirectResponse ''/admin/dashboard'' 302, d)"
  using assms by (simp add: delete_user_def)

theorem delete_own_account_noop_witness:
  "require_admin (Some 1) household = Inr alice
   \<and> delete_user (Some 1) 1 household = (RedirectResponse ''/admin/dashboard'' 302, household)"
proof -
  have 1: "require_admin (Some 1) household = Inr alice"
    by (simp add: household_def require_admin_def require_login_def get_user_def alice_def)
  have 2: "u_id alice = 1"
    by (simp add: alice_def)
  from delete_own_account_noop[OF 1] 1 show ?thesis
    unfolding 2 by simp
qed

section \<open>C9: the recipe suggestions\<close>

lemma expiring_soon_eq:
  "filter (\<lambda>i. user_id i = uid \<and> dt_le (expiry_date i) (plus_days now 30) \<and> \<not> is_expired i)
     (food_items d) = expiring_soon now d uid"
  unfolding expiring_soon_def
  by (intro filter_cong refl) (auto simp: dt_le_def plus_days_def)

text \<open>
  Claim C9. The recipe helper selects the user's items that expire no later than 30 days
  from now and are not flagged expired. With no such item it returns the fallback
  string; otherwise it returns the template with the names of the first items selected,
  three at most, separated by a comma and a space.
\<close>

theorem recipe_suggestions_template:
  "get_recipe_suggestions now d uid =
     (case map name (expiring_soon now d uid) of
        [] \<Rightarrow> ''No recipes available''
      | [a] \<Rightarrow> ''You have: '' @ a @ ''. Try making a stir-fry, soup, or salad!''
      | [a, b] \<Rightarrow> ''You have: '' @ a @ '', '' @ b @ ''. Try making a stir-fry, soup, or salad!''
      | a # b # c # others \<Rightarrow>
          ''You have: '' @ a @ '', '' @ b @ '', '' @ c @ ''. Try making a stir-fry, soup, or salad!'')"
  unfolding get_recipe_suggestions_def Let_def expiring_soon_eq
  by (simp split: list.splits)

theorem recipe_suggestions_template_witness:
  "get_recipe_suggestions noon household 1
     = ''You have: milk, eggs. Try making a stir-fry, soup, or salad!''
   \<and> get_recipe_suggestions noon household 7 = ''No recipes available''"
proof -
  have 1: "map name (expiring_soon noon household 1) = [''milk'', ''eggs'']"
    by (simp add: expiring_soon_def household_def item_at_def noon_def)
  have 7: "map name (expiring_soon noon household 7) = []"
    by (simp add: expiring_soon_def household_def item_at_def noon_def)
  show ?thesis
    unfolding recipe_suggestions_template 1 7 by simp
qed

end
